theory Spec2Isabelle
  imports Main
begin

section \<open>State change events of the ECS agent (agent/api/statechange.go)\<close>

text \<open>
  The file \<open>statechange.go\<close> builds the events that report a status change of a task
  or of a container to the backend, decides which task events are worth reporting and
  renders events for the log. It uses types and methods of its package that are declared
  in other files: the statuses with their order and their tests, the live \<open>Task\<close> and
  \<open>Container\<close> objects, port bindings and ENI attachments. What is needed of them is
  introduced first; the functions of \<open>statechange.go\<close> follow, line by line.
\<close>

subsection \<open>Go's standard library: time and decimal numbers\<close>

text \<open>
  A \<open>time.Time\<close> is an instant, counted in seconds and nanoseconds from
  January 1 of year 1, 00:00:00 UTC, together with the location it is shown in.
  The zero value of the type is that first instant, in UTC.
\<close>

datatype Location = UTC | Zone string

record Time =
  sec :: int
  nsec :: int
  loc :: Location

definition zeroTime :: Time where
  "zeroTime = \<lparr>sec = 0, nsec = 0, loc = UTC\<rparr>"

definition IsZero :: "Time \<Rightarrow> bool" where
  \<comment> \<open>\<open>t.IsZero()\<close>: the instant is the first one, whatever the location.\<close>
  "IsZero t = (sec t = 0 \<and> nsec t = 0)"

definition Time_UTC :: "Time \<Rightarrow> Time" where
  \<comment> \<open>\<open>t.UTC()\<close>: the same instant with the location set to UTC.\<close>
  "Time_UTC t = t\<lparr>loc := UTC\<rparr>"

definition digit :: "nat \<Rightarrow> char" where
  "digit d = ''0123456789'' ! (d mod 10)"

function Itoa_nat :: "nat \<Rightarrow> string" where
  "Itoa_nat n = (if n < 10 then [digit n] else Itoa_nat (n div 10) @ [digit (n mod 10)])"
  by pat_completeness auto
termination
  by (relation "measure (\<lambda>n. n)") auto

definition Itoa :: "int \<Rightarrow> string" where
  \<comment> \<open>\<open>strconv.Itoa\<close>: the decimal digits, after a minus sign for a negative number.\<close>
  "Itoa i = (if i < 0 then CHR ''-'' # Itoa_nat (nat (- i)) else Itoa_nat (nat i))"

subsection \<open>The entities read by the constructors\<close>

text \<open>
  Modelled from the spec: the declarations of \<open>TaskStatus\<close> and \<open>ContainerStatus\<close> are
  not in \<open>statechange.go\<close>. The code compares statuses with \<open>>=\<close> and \<open>==\<close> only, and
  section 9 of the specification says that the order is the one of the integers behind
  them, so a status is an integer here.
\<close>

type_synonym TaskStatus = int
type_synonym ContainerStatus = int

text \<open>
  Modelled from the spec: \<open>PortBinding\<close> and \<open>ENIAttachment\<close> are declared elsewhere in
  the package. \<open>statechange.go\<close> copies and prints them and never looks inside.
\<close>

typedecl PortBinding
typedecl ENIAttachment

text \<open>
  Modelled from the spec: the struct \<open>Task\<close> is declared elsewhere in the package.
  Section 3 of the specification lists what a task carries; \<open>statechange.go\<close> reads the
  field \<open>Arn\<close> and calls the accessors \<open>GetKnownStatus\<close>, \<open>GetSentStatus\<close>,
  \<open>GetPullStartedAt\<close>, \<open>GetPullStoppedAt\<close> and \<open>GetExecutionStoppedAt\<close>. An accessor
  is the field of the record that holds what it returns at the time of the call.
\<close>

record Task =
  Arn :: string
  Task_GetKnownStatus :: TaskStatus
  Task_GetSentStatus :: TaskStatus
  GetPullStartedAt :: Time
  GetPullStoppedAt :: Time
  GetExecutionStoppedAt :: Time

text \<open>
  Modelled from the spec: the struct \<open>Container\<close> is declared elsewhere in the package.
  \<open>statechange.go\<close> reads its fields \<open>Name\<close>, \<open>ApplyingError\<close> and \<open>KnownPortBindings\<close>
  and calls \<open>GetKnownStatus\<close>, \<open>GetSentStatus\<close>, \<open>GetSteadyStateStatus\<close>, \<open>IsInternal\<close>
  and \<open>GetKnownExitCode\<close>. \<open>ApplyingError\<close> is a pointer to an error of which only the
  message \<open>Error()\<close> is used: it is \<open>None\<close> for nil and \<open>Some\<close> of the message otherwise.
  \<open>GetKnownExitCode\<close> returns a pointer to an integer, \<open>None\<close> for nil.
\<close>

record Container =
  Name :: string
  Container_GetKnownStatus :: ContainerStatus
  Container_GetSentStatus :: ContainerStatus
  GetSteadyStateStatus :: ContainerStatus
  IsInternal :: bool
  ApplyingError :: "string option"
  KnownPortBindings :: "PortBinding list"
  GetKnownExitCode :: "int option"

text \<open>
  The methods and constants of the package that \<open>statechange.go\<close> calls and that are
  declared in other files are parameters of every function below: the two task statuses
  \<open>TaskRunning\<close> and \<open>TaskStopped\<close>, \<open>TaskStatus.BackendRecognized\<close>,
  \<open>ContainerStatus.ShouldReportToBackend\<close> and \<open>ContainerStatus.BackendStatus\<close> (both take
  the steady state status as their second argument), and the renderings used for the log:
  the \<open>String\<close> methods of the two statuses, of \<open>time.Time\<close> and of \<open>ENIAttachment\<close>, and
  the \<open>%v\<close> format of a slice of port bindings.
\<close>

record Collaborators =
  TaskRunning :: TaskStatus
  TaskStopped :: TaskStatus
  BackendRecognized :: "TaskStatus \<Rightarrow> bool"
  ShouldReportToBackend :: "ContainerStatus \<Rightarrow> ContainerStatus \<Rightarrow> bool"
  BackendStatus :: "ContainerStatus \<Rightarrow> ContainerStatus \<Rightarrow> ContainerStatus"
  TaskStatus_String :: "TaskStatus \<Rightarrow> string"
  ContainerStatus_String :: "ContainerStatus \<Rightarrow> string"
  Time_String :: "Time \<Rightarrow> string"
  PortBindings_String :: "PortBinding list \<Rightarrow> string"
  ENIAttachment_String :: "ENIAttachment \<Rightarrow> string"

subsection \<open>The events\<close>

text \<open>
  The two structs of \<open>statechange.go\<close>. A pointer field is an option, \<open>None\<close> for nil.
  The back references \<open>Container\<close> and \<open>Task\<close> point to the live objects; no function of
  the file writes through them, so the record holds the object as it is when it is read.
\<close>

record ContainerStateChange =
  TaskArn :: string
  ContainerName :: string
  Status :: ContainerStatus
  Reason :: string
  ExitCode :: "int option"
  PortBindings :: "PortBinding list"
  Container :: "Container option"

record TaskStateChange =
  Attachment :: "ENIAttachment option"
  TaskARN :: string
  Status :: TaskStatus
  Reason :: string
  Containers :: "ContainerStateChange list"
  PullStartedAt :: "Time option"
  PullStoppedAt :: "Time option"
  ExecutionStoppedAt :: "Time option"
  Task :: "Task option"

text \<open>
  The constructors return an error made by \<open>errors.Errorf\<close>. There are three kinds of
  failure, told apart by the message; the error keeps the kind and the operands of the
  format: the status and the task ARN for an unrecognized status, the container name for
  an internal container, the printed status and the names (of the task, or of the
  container and the task) for a status that was already sent.
\<close>

datatype error =
    UnrecognizedStatus int string
  | InternalContainer string
  | AlreadySent string "string list"

subsection \<open>SetTaskTimestamps\<close>

definition SetTaskTimestamps :: "TaskStateChange \<Rightarrow> TaskStateChange" where
  "SetTaskTimestamps change =
     (case Task change of
        None \<Rightarrow> change
      | Some task \<Rightarrow>
          (let change = (if \<not> IsZero (GetPullStartedAt task)
                         then change\<lparr>PullStartedAt := Some (Time_UTC (GetPullStartedAt task))\<rparr>
                         else change);
               change = (if \<not> IsZero (GetPullStoppedAt task)
                         then change\<lparr>PullStoppedAt := Some (Time_UTC (GetPullStoppedAt task))\<rparr>
                         else change);
               change = (if \<not> IsZero (GetExecutionStoppedAt task)
                         then change\<lparr>ExecutionStoppedAt :=
                                        Some (Time_UTC (GetExecutionStoppedAt task))\<rparr>
                         else change)
           in change))"

subsection \<open>NewTaskStateChangeEvent\<close>

text \<open>
  The constructors receive pointers to the live task and container and read them at
  once; the model takes the objects read. With an error Go returns the zero event beside
  it, which the model leaves out. The event starts as the zero value of the struct; on
  success the literal sets four fields and leaves the others zero, and
  \<open>SetTaskTimestamps\<close> runs on the result.
\<close>

definition NewTaskStateChangeEvent ::
  "Collaborators \<Rightarrow> Task \<Rightarrow> string \<Rightarrow> error + TaskStateChange" where
  "NewTaskStateChangeEvent env task reason =
     (let taskKnownStatus = Task_GetKnownStatus task in
      if \<not> BackendRecognized env taskKnownStatus
      then Inl (UnrecognizedStatus taskKnownStatus (Arn task))
      else if Task_GetSentStatus task \<ge> taskKnownStatus
      then Inl (AlreadySent (TaskStatus_String env taskKnownStatus) [Arn task])
      else Inr (SetTaskTimestamps
                 \<lparr>Attachment = None, TaskARN = Arn task, Status = taskKnownStatus,
                  Reason = reason, Containers = [], PullStartedAt = None,
                  PullStoppedAt = None, ExecutionStoppedAt = None, Task = Some task\<rparr>))"

subsection \<open>NewContainerStateChangeEvent\<close>

definition NewContainerStateChangeEvent ::
  "Collaborators \<Rightarrow> Task \<Rightarrow> Container \<Rightarrow> string \<Rightarrow> error + ContainerStateChange" where
  "NewContainerStateChangeEvent env task cont reason =
     (let contKnownStatus = Container_GetKnownStatus cont in
      if \<not> ShouldReportToBackend env contKnownStatus (GetSteadyStateStatus cont)
      then Inl (UnrecognizedStatus contKnownStatus (Arn task))
      else if IsInternal cont
      then Inl (InternalContainer (Name cont))
      else if Container_GetSentStatus cont \<ge> contKnownStatus
      then Inl (AlreadySent (ContainerStatus_String env contKnownStatus) [Name cont, Arn task])
      else
        (let reason = (if reason = ''''
                       then (case ApplyingError cont of None \<Rightarrow> reason | Some err \<Rightarrow> err)
                       else reason)
         in Inr \<lparr>TaskArn = Arn task,
                 ContainerName = Name cont,
                 ContainerStateChange.Status =
                   BackendStatus env contKnownStatus (GetSteadyStateStatus cont),
                 ContainerStateChange.Reason = reason,
                 ExitCode = GetKnownExitCode cont,
                 PortBindings = KnownPortBindings cont,
                 Container = Some cont\<rparr>))"

subsection \<open>ShouldBeReported\<close>

definition ShouldBeReported :: "Collaborators \<Rightarrow> TaskStateChange \<Rightarrow> bool" where
  "ShouldBeReported env change =
     (if Status change = TaskRunning env \<or> Status change = TaskStopped env then True
      else if length (Containers change) \<noteq> 0 then True
      else False)"

subsection \<open>Rendering for the log\<close>

text \<open>
  Both \<open>String\<close> methods start from the identifier and the status and append to \<open>res\<close>
  under a sequence of tests. \<open>fmt.Sprintf\<close> with \<open>%s\<close> prints a string as it is and a
  \<open>time.Time\<close> by its \<open>String\<close> method.
\<close>

definition ContainerStateChange_String :: "Collaborators \<Rightarrow> ContainerStateChange \<Rightarrow> string" where
  "ContainerStateChange_String env c =
     (let res = TaskArn c @ '' '' @ ContainerName c @ '' -> '' @
                ContainerStatus_String env (ContainerStateChange.Status c);
          res = (case ExitCode c of
                   Some e \<Rightarrow> res @ '', Exit '' @ Itoa e @ '', ''
                 | None \<Rightarrow> res);
          res = (if ContainerStateChange.Reason c \<noteq> ''''
                 then res @ '', Reason '' @ ContainerStateChange.Reason c else res);
          res = (if length (PortBindings c) \<noteq> 0
                 then res @ '', Ports '' @ PortBindings_String env (PortBindings c) else res);
          res = (case Container c of
                   Some cont \<Rightarrow> res @ '', Known Sent: '' @
                                ContainerStatus_String env (Container_GetSentStatus cont)
                 | None \<Rightarrow> res)
      in res)"

definition TaskStateChange_String :: "Collaborators \<Rightarrow> TaskStateChange \<Rightarrow> string" where
  "TaskStateChange_String env t =
     (let res = TaskARN t @ '' -> '' @ TaskStatus_String env (Status t);
          res = (case Task t of
                   Some task \<Rightarrow>
                     res @ '', Known Sent: '' @ TaskStatus_String env (Task_GetSentStatus task) @
                           '', PullStartedAt: '' @ Time_String env (GetPullStartedAt task) @
                           '', PullStoppedAt: '' @ Time_String env (GetPullStoppedAt task) @
                           '', ExecutionStoppedAt: '' @
                             Time_String env (GetExecutionStoppedAt task)
                 | None \<Rightarrow> res);
          res = (case Attachment t of
                   Some a \<Rightarrow> res @ '', '' @ ENIAttachment_String env a
                 | None \<Rightarrow> res);
          res = foldl (\<lambda>res containerChange.
                         res @ '', '' @ ContainerStateChange_String env containerChange)
                      res (Containers t)
      in res)"

subsection \<open>The renderings read as labelled segments\<close>

text \<open>
  To speak about which parts a rendering has and in which order, each piece that a
  \<open>String\<close> method appends is given a label. The two functions below list the pieces
  under the tests of the code; \<open>ContainerStateChange_String_segments\<close> and
  \<open>TaskStateChange_String_segments\<close> show that the renderings are the header followed by
  these pieces.
\<close>

datatype Segment =
  ExitCodeSeg | ReasonSeg | PortBindingsSeg | KnownSentSeg | TimestampsSeg
  | AttachmentSeg | ContainerSeg

definition ContainerStateChange_header :: "Collaborators \<Rightarrow> ContainerStateChange \<Rightarrow> string" where
  "ContainerStateChange_header env c =
     TaskArn c @ '' '' @ ContainerName c @ '' -> '' @
     ContainerStatus_String env (ContainerStateChange.Status c)"

definition ContainerStateChange_segments ::
  "Collaborators \<Rightarrow> ContainerStateChange \<Rightarrow> (Segment \<times> string) list" where
  "ContainerStateChange_segments env c =
     (case ExitCode c of
        None \<Rightarrow> []
      | Some e \<Rightarrow> [(ExitCodeSeg, '', Exit '' @ Itoa e @ '', '')]) @
     (if ContainerStateChange.Reason c = '''' then []
      else [(ReasonSeg, '', Reason '' @ ContainerStateChange.Reason c)]) @
     (if PortBindings c = [] then []
      else [(PortBindingsSeg, '', Ports '' @ PortBindings_String env (PortBindings c))]) @
     (case Container c of
        None \<Rightarrow> []
      | Some cont \<Rightarrow>
          [(KnownSentSeg, '', Known Sent: '' @
                          ContainerStatus_String env (Container_GetSentStatus cont))])"

definition TaskStateChange_header :: "Collaborators \<Rightarrow> TaskStateChange \<Rightarrow> string" where
  "TaskStateChange_header env t = TaskARN t @ '' -> '' @ TaskStatus_String env (Status t)"

definition TaskStateChange_segments ::
  "Collaborators \<Rightarrow> TaskStateChange \<Rightarrow> (Segment \<times> string) list" where
  "TaskStateChange_segments env t =
     (case Task t of
        None \<Rightarrow> []
      | Some task \<Rightarrow>
          [(KnownSentSeg, '', Known Sent: '' @ TaskStatus_String env (Task_GetSentStatus task)),
           (TimestampsSeg,
            '', PullStartedAt: '' @ Time_String env (GetPullStartedAt task) @
            '', PullStoppedAt: '' @ Time_String env (GetPullStoppedAt task) @
            '', ExecutionStoppedAt: '' @ Time_String env (GetExecutionStoppedAt task))]) @
     (case Attachment t of
        None \<Rightarrow> []
      | Some a \<Rightarrow> [(AttachmentSeg, '', '' @ ENIAttachment_String env a)]) @
     map (\<lambda>containerChange.
            (ContainerSeg, '', '' @ ContainerStateChange_String env containerChange))
         (Containers t)"

subsection \<open>An instance for evaluation\<close>

text \<open>
  Modelled from the spec: the status constants and their methods are not in
  \<open>statechange.go\<close>. To evaluate the functions at concrete inputs, \<open>sampleEnv\<close> is one
  instance of them that agrees with the specification: statuses are numbered along the
  lifecycle (NONE 0, PULLED 1, CREATED 2, RUNNING 3, STOPPED 4 for a task; NONE 0,
  PULLED 1, CREATED 2, RUNNING 3, RESOURCES_PROVISIONED 4, STOPPED 5 for a container),
  the backend recognizes the task statuses RUNNING and STOPPED (sections 4.1 and 4.3), and
  a container status is reported when it is the steady state status, shown as RUNNING,
  or STOPPED (section 4.2). The renderings of port bindings and of attachments are
  placeholders, and so is the rendering of a time other than the zero time, which Go
  prints as \<open>0001-01-01 00:00:00 +0000 UTC\<close>. Every theorem below holds for all
  collaborators; the instance serves the closed examples only.
\<close>

definition sampleTaskStatusString :: "TaskStatus \<Rightarrow> string" where
  "sampleTaskStatusString s =
     (if s = 2 then ''CREATED'' else if s = 3 then ''RUNNING''
      else if s = 4 then ''STOPPED'' else ''NONE'')"

definition sampleContainerStatusString :: "ContainerStatus \<Rightarrow> string" where
  "sampleContainerStatusString s =
     (if s = 1 then ''PULLED'' else if s = 2 then ''CREATED'' else if s = 3 then ''RUNNING''
      else if s = 4 then ''RESOURCES_PROVISIONED'' else if s = 5 then ''STOPPED''
      else ''NONE'')"

definition sampleTimeString :: "Time \<Rightarrow> string" where
  "sampleTimeString t =
     (if IsZero t \<and> loc t = UTC then ''0001-01-01 00:00:00 +0000 UTC''
      else ''+'' @ Itoa (sec t) @ ''s'')"

definition sampleEnv :: Collaborators where
  "sampleEnv =
     \<lparr>TaskRunning = 3, TaskStopped = 4,
      BackendRecognized = (\<lambda>ts. ts = 3 \<or> ts = 4),
      ShouldReportToBackend = (\<lambda>cs steadyStateStatus. cs = steadyStateStatus \<or> cs = 5),
      BackendStatus = (\<lambda>cs steadyStateStatus.
                         if cs = steadyStateStatus then 3 else if cs = 5 then 5 else 0),
      TaskStatus_String = sampleTaskStatusString,
      ContainerStatus_String = sampleContainerStatusString,
      Time_String = sampleTimeString,
      PortBindings_String = (\<lambda>pbs. ''[]''),
      ENIAttachment_String = (\<lambda>a. ''ENI Attachment'')\<rparr>"

definition sampleTask :: "TaskStatus \<Rightarrow> TaskStatus \<Rightarrow> Task" where
  \<comment> \<open>The task \<open>t1\<close> with the given known and sent status and no timestamp set.\<close>
  "sampleTask known sent =
     \<lparr>Arn = ''t1'', Task_GetKnownStatus = known, Task_GetSentStatus = sent,
      GetPullStartedAt = zeroTime, GetPullStoppedAt = zeroTime,
      GetExecutionStoppedAt = zeroTime\<rparr>"

definition sampleContainer :: "ContainerStatus \<Rightarrow> ContainerStatus \<Rightarrow> bool \<Rightarrow> Container" where
  \<comment> \<open>The container \<open>c1\<close> with steady state RUNNING, a recorded error and exit code 1.\<close>
  "sampleContainer known sent internal =
     \<lparr>Name = ''c1'', Container_GetKnownStatus = known, Container_GetSentStatus = sent,
      GetSteadyStateStatus = 3, IsInternal = internal,
      ApplyingError = Some ''CannotPullContainerError: timeout'',
      KnownPortBindings = [], GetKnownExitCode = Some 1\<rparr>"

definition pulledTask :: Task where
  \<comment> \<open>The task \<open>t1\<close>, RUNNING, nothing sent, pulled between two instants of 2018, not stopped.\<close>
  "pulledTask =
     \<lparr>Arn = ''t1'', Task_GetKnownStatus = 3, Task_GetSentStatus = 0,
      GetPullStartedAt = \<lparr>sec = 63650000000, nsec = 5, loc = Zone ''PST''\<rparr>,
      GetPullStoppedAt = \<lparr>sec = 63650000020, nsec = 0, loc = UTC\<rparr>,
      GetExecutionStoppedAt = zeroTime\<rparr>"

definition sampleContainerChange :: ContainerStateChange where
  "sampleContainerChange =
     \<lparr>TaskArn = ''t1'', ContainerName = ''c1'', ContainerStateChange.Status = 3,
      ContainerStateChange.Reason = '''', ExitCode = None, PortBindings = [],
      Container = None\<rparr>"

definition sampleChange :: "TaskStatus \<Rightarrow> ContainerStateChange list \<Rightarrow> TaskStateChange" where
  \<comment> \<open>An event of task \<open>t1\<close> with the given status and container events and no back reference.\<close>
  "sampleChange status containers =
     \<lparr>Attachment = None, TaskARN = ''t1'', Status = status, Reason = '''',
      Containers = containers, PullStartedAt = None, PullStoppedAt = None,
      ExecutionStoppedAt = None, Task = None\<rparr>"

definition stoppedContainerChange :: ContainerStateChange where
  "stoppedContainerChange =
     \<lparr>TaskArn = ''t1'', ContainerName = ''c1'', ContainerStateChange.Status = 5,
      ContainerStateChange.Reason = ''OutOfMemoryError'', ExitCode = Some 137,
      PortBindings = [], Container = Some (sampleContainer 5 3 False)\<rparr>"

definition stoppedTaskChange :: TaskStateChange where
  "stoppedTaskChange =
     \<lparr>Attachment = None, TaskARN = ''t1'', Status = 4, Reason = '''',
      Containers = [stoppedContainerChange], PullStartedAt = None, PullStoppedAt = None,
      ExecutionStoppedAt = None, Task = None\<rparr>"

definition freshEvent :: TaskStateChange where
  \<comment> \<open>What \<open>NewTaskStateChangeEvent\<close> returns for \<open>sampleTask 3 0\<close>: no timestamp is set.\<close>
  "freshEvent =
     \<lparr>Attachment = None, TaskARN = ''t1'', Status = 3, Reason = ''all containers started'',
      Containers = [], PullStartedAt = None, PullStoppedAt = None,
      ExecutionStoppedAt = None, Task = Some (sampleTask 3 0)\<rparr>"

section \<open>Properties\<close>

subsection \<open>The task event constructor\<close>

text \<open>
  Claim C1. For every task whose known status is recognized by the backend and whose sent
  status is strictly below its known status, \<open>NewTaskStateChangeEvent\<close> returns no error,
  and the event it returns has the known status of the task as its status, the ARN of the
  task as its task ARN and the reason that was passed as its reason.
\<close>

theorem NewTaskStateChangeEvent_succeeds:
  assumes "BackendRecognized env (Task_GetKnownStatus task)"
    and "Task_GetSentStatus task < Task_GetKnownStatus task"
  shows "\<exists>event. NewTaskStateChangeEvent env task reason = Inr event
           \<and> Status event = Task_GetKnownStatus task
           \<and> TaskARN event = Arn task
           \<and> Reason event = reason"
  using assms
  by (simp add: NewTaskStateChangeEvent_def SetTaskTimestamps_def Let_def)

text \<open>The scenario of the specification: task \<open>t1\<close>, known status RUNNING, nothing sent yet.\<close>

theorem NewTaskStateChangeEvent_succeeds_witness:
  "BackendRecognized sampleEnv (Task_GetKnownStatus (sampleTask 3 0))
   \<and> Task_GetSentStatus (sampleTask 3 0) < Task_GetKnownStatus (sampleTask 3 0)
   \<and> (\<exists>event. NewTaskStateChangeEvent sampleEnv (sampleTask 3 0) ''essential container exited'' = Inr event
           \<and> Status event = 3
           \<and> TaskARN event = ''t1''
           \<and> Reason event = ''essential container exited'')"
proof -
  have a: "BackendRecognized sampleEnv (Task_GetKnownStatus (sampleTask 3 0))"
    by (simp add: sampleEnv_def sampleTask_def)
  have b: "Task_GetSentStatus (sampleTask 3 0) < Task_GetKnownStatus (sampleTask 3 0)"
    by (simp add: sampleTask_def)
  from NewTaskStateChangeEvent_succeeds [OF a b, of "''essential container exited''"] a b
  show ?thesis by (simp add: sampleTask_def)
qed

text \<open>
  Claim C2, as the code has it. \<open>NewTaskStateChangeEvent\<close> tests the known status before
  it compares it with the sent status. So for every task whose known status is recognized
  by the backend and whose sent status is at or above its known status, the constructor
  fails with \<open>AlreadySent\<close>, whatever the reason; and for every container whose status is
  reportable, that is not internal and whose sent status is at or above its known status,
  \<open>NewContainerStateChangeEvent\<close> fails with \<open>AlreadySent\<close>, whatever the reason.
\<close>

theorem AlreadySent_when_sent_reaches_known:
  "(BackendRecognized env (Task_GetKnownStatus task)
      \<and> Task_GetSentStatus task \<ge> Task_GetKnownStatus task
    \<longrightarrow> NewTaskStateChangeEvent env task reason =
          Inl (AlreadySent (TaskStatus_String env (Task_GetKnownStatus task)) [Arn task]))
   \<and> (ShouldReportToBackend env (Container_GetKnownStatus cont) (GetSteadyStateStatus cont)
      \<and> \<not> IsInternal cont
      \<and> Container_GetSentStatus cont \<ge> Container_GetKnownStatus cont
    \<longrightarrow> NewContainerStateChangeEvent env task' cont reason' =
          Inl (AlreadySent (ContainerStatus_String env (Container_GetKnownStatus cont))
                 [Name cont, Arn task']))"
  by (simp add: NewTaskStateChangeEvent_def NewContainerStateChangeEvent_def Let_def)

theorem AlreadySent_when_sent_reaches_known_witness:
  "BackendRecognized sampleEnv (Task_GetKnownStatus (sampleTask 3 3))
   \<and> Task_GetSentStatus (sampleTask 3 3) \<ge> Task_GetKnownStatus (sampleTask 3 3)
   \<and> NewTaskStateChangeEvent sampleEnv (sampleTask 3 3) ''again'' =
       Inl (AlreadySent ''RUNNING'' [''t1''])
   \<and> ShouldReportToBackend sampleEnv (Container_GetKnownStatus (sampleContainer 3 5 False))
        (GetSteadyStateStatus (sampleContainer 3 5 False))
   \<and> \<not> IsInternal (sampleContainer 3 5 False)
   \<and> Container_GetSentStatus (sampleContainer 3 5 False)
        \<ge> Container_GetKnownStatus (sampleContainer 3 5 False)
   \<and> NewContainerStateChangeEvent sampleEnv (sampleTask 3 0) (sampleContainer 3 5 False) '''' =
       Inl (AlreadySent ''RUNNING'' [''c1'', ''t1''])"
  using AlreadySent_when_sent_reaches_known
          [of sampleEnv "sampleTask 3 3" "''again''" "sampleContainer 3 5 False" "sampleTask 3 0" "''''"]
  by (simp add: sampleEnv_def sampleTask_def sampleContainer_def
        sampleTaskStatusString_def sampleContainerStatusString_def)

text \<open>
  Claim C2 as it is written asks for \<open>AlreadySent\<close> for every task whose sent status is at
  or above its known status. A task that was just received has known status NONE and sent
  status NONE; NONE is not recognized by the backend, and the constructor fails with
  \<open>UnrecognizedStatus\<close>.
\<close>

theorem AlreadySent_counterexample:
  "Task_GetSentStatus (sampleTask 0 0) \<ge> Task_GetKnownStatus (sampleTask 0 0)
   \<and> NewTaskStateChangeEvent sampleEnv (sampleTask 0 0) ''x'' = Inl (UnrecognizedStatus 0 ''t1'')
   \<and> NewTaskStateChangeEvent sampleEnv (sampleTask 0 0) ''x''
       \<noteq> Inl (AlreadySent (TaskStatus_String sampleEnv 0) [''t1''])"
  by (simp add: NewTaskStateChangeEvent_def sampleEnv_def sampleTask_def)

text \<open>
  Claim C3. For every task whose known status is not recognized by the backend,
  \<open>NewTaskStateChangeEvent\<close> fails with \<open>UnrecognizedStatus\<close>, for every reason and whatever
  the sent status of the task is.
\<close>

theorem UnrecognizedStatus_task:
  "\<not> BackendRecognized env (Task_GetKnownStatus task)
   \<Longrightarrow> NewTaskStateChangeEvent env task reason =
         Inl (UnrecognizedStatus (Task_GetKnownStatus task) (Arn task))"
  by (simp add: NewTaskStateChangeEvent_def)

text \<open>A task in status CREATED, once with nothing sent and once with STOPPED sent.\<close>

theorem UnrecognizedStatus_task_witness:
  "\<not> BackendRecognized sampleEnv (Task_GetKnownStatus (sampleTask 2 0))
   \<and> NewTaskStateChangeEvent sampleEnv (sampleTask 2 0) ''created'' =
         Inl (UnrecognizedStatus 2 ''t1'')
   \<and> \<not> BackendRecognized sampleEnv (Task_GetKnownStatus (sampleTask 2 4))
   \<and> NewTaskStateChangeEvent sampleEnv (sampleTask 2 4) '''' =
         Inl (UnrecognizedStatus 2 ''t1'')"
proof -
  have a: "\<not> BackendRecognized sampleEnv (Task_GetKnownStatus (sampleTask 2 0))"
    by (simp add: sampleEnv_def sampleTask_def)
  have b: "\<not> BackendRecognized sampleEnv (Task_GetKnownStatus (sampleTask 2 4))"
    by (simp add: sampleEnv_def sampleTask_def)
  from UnrecognizedStatus_task [OF a, of "''created''"] UnrecognizedStatus_task [OF b, of "''''"] a b
  show ?thesis by (simp add: sampleTask_def)
qed

text \<open>
  Claim C7. For every task from which \<open>NewTaskStateChangeEvent\<close> constructs an event, each
  of \<open>PullStartedAt\<close>, \<open>PullStoppedAt\<close> and \<open>ExecutionStoppedAt\<close> of the event is nil when
  the timestamp of the task is zero, and otherwise holds that timestamp converted to UTC.
\<close>

theorem timestamps_of_new_event:
  assumes "NewTaskStateChangeEvent env task reason = Inr event"
  shows "PullStartedAt event =
           (if IsZero (GetPullStartedAt task) then None
            else Some (Time_UTC (GetPullStartedAt task)))
       \<and> PullStoppedAt event =
           (if IsZero (GetPullStoppedAt task) then None
            else Some (Time_UTC (GetPullStoppedAt task)))
       \<and> ExecutionStoppedAt event =
           (if IsZero (GetExecutionStoppedAt task) then None
            else Some (Time_UTC (GetExecutionStoppedAt task)))"
  using assms
  by (auto simp: NewTaskStateChangeEvent_def SetTaskTimestamps_def Let_def split: if_splits)

text \<open>
  A task whose pull started in another time zone and stopped twenty seconds later, and
  that is still running: two timestamps are set, in UTC, and the third one is absent.
\<close>

theorem timestamps_of_new_event_witness:
  "NewTaskStateChangeEvent sampleEnv pulledTask '''' =
     Inr \<lparr>Attachment = None, TaskARN = ''t1'', Status = 3, Reason = '''', Containers = [],
          PullStartedAt = Some \<lparr>sec = 63650000000, nsec = 5, loc = UTC\<rparr>,
          PullStoppedAt = Some \<lparr>sec = 63650000020, nsec = 0, loc = UTC\<rparr>,
          ExecutionStoppedAt = None, Task = Some pulledTask\<rparr>
   \<and> \<not> IsZero (GetPullStartedAt pulledTask)
   \<and> \<not> IsZero (GetPullStoppedAt pulledTask)
   \<and> IsZero (GetExecutionStoppedAt pulledTask)"
proof -
  let ?ev = "\<lparr>Attachment = None, TaskARN = ''t1'', Status = 3, Reason = '''', Containers = [],
          PullStartedAt = Some \<lparr>sec = 63650000000, nsec = 5, loc = UTC\<rparr>,
          PullStoppedAt = Some \<lparr>sec = 63650000020, nsec = 0, loc = UTC\<rparr>,
          ExecutionStoppedAt = None, Task = Some pulledTask\<rparr>"
  have a: "NewTaskStateChangeEvent sampleEnv pulledTask '''' = Inr ?ev"
    by (simp add: NewTaskStateChangeEvent_def SetTaskTimestamps_def sampleEnv_def
          pulledTask_def IsZero_def Time_UTC_def zeroTime_def)
  from timestamps_of_new_event [OF a] a
  show ?thesis by (simp add: pulledTask_def IsZero_def zeroTime_def split: if_splits)
qed

subsection \<open>SetTaskTimestamps\<close>

text \<open>
  Claim C10. For every event whose \<open>Task\<close> back reference is nil, \<open>SetTaskTimestamps\<close>
  leaves the event as it is; and for every event, \<open>SetTaskTimestamps\<close> changes at most the
  fields \<open>PullStartedAt\<close>, \<open>PullStoppedAt\<close> and \<open>ExecutionStoppedAt\<close>: every other field
  keeps its value, and the result is the event with these three fields replaced.
\<close>

theorem SetTaskTimestamps_frame:
  "(Task change = None \<longrightarrow> SetTaskTimestamps change = change)
   \<and> Attachment (SetTaskTimestamps change) = Attachment change
   \<and> TaskARN (SetTaskTimestamps change) = TaskARN change
   \<and> Status (SetTaskTimestamps change) = Status change
   \<and> Reason (SetTaskTimestamps change) = Reason change
   \<and> Containers (SetTaskTimestamps change) = Containers change
   \<and> Task (SetTaskTimestamps change) = Task change
   \<and> SetTaskTimestamps change =
       change\<lparr>PullStartedAt := PullStartedAt (SetTaskTimestamps change),
              PullStoppedAt := PullStoppedAt (SetTaskTimestamps change),
              ExecutionStoppedAt := ExecutionStoppedAt (SetTaskTimestamps change)\<rparr>"
  by (simp add: SetTaskTimestamps_def Let_def split: option.splits)

theorem SetTaskTimestamps_frame_witness:
  "Task (sampleChange 3 [sampleContainerChange]) = None
   \<and> SetTaskTimestamps (sampleChange 3 [sampleContainerChange]) =
       sampleChange 3 [sampleContainerChange]
   \<and> SetTaskTimestamps ((sampleChange 2 [sampleContainerChange])\<lparr>Task := Some pulledTask\<rparr>) =
       (sampleChange 2 [sampleContainerChange])
         \<lparr>PullStartedAt := Some \<lparr>sec = 63650000000, nsec = 5, loc = UTC\<rparr>,
          PullStoppedAt := Some \<lparr>sec = 63650000020, nsec = 0, loc = UTC\<rparr>,
          Task := Some pulledTask\<rparr>"
  using SetTaskTimestamps_frame [of "sampleChange 3 [sampleContainerChange]"]
        SetTaskTimestamps_frame [of "(sampleChange 2 [sampleContainerChange])\<lparr>Task := Some pulledTask\<rparr>"]
  by (simp add: sampleChange_def SetTaskTimestamps_def pulledTask_def IsZero_def Time_UTC_def
        zeroTime_def)

subsection \<open>The container event constructor\<close>

text \<open>
  Claim C4, as the code has it. The status test comes before the test of the internal
  flag. For every internal container whose known status is reportable against its steady
  state status, \<open>NewContainerStateChangeEvent\<close> fails with \<open>InternalContainer\<close>, whatever
  the sent status is.
\<close>

theorem InternalContainer_when_reportable:
  "ShouldReportToBackend env (Container_GetKnownStatus cont) (GetSteadyStateStatus cont)
   \<Longrightarrow> IsInternal cont
   \<Longrightarrow> NewContainerStateChangeEvent env task cont reason = Inl (InternalContainer (Name cont))"
  by (simp add: NewContainerStateChangeEvent_def)

theorem InternalContainer_when_reportable_witness:
  "ShouldReportToBackend sampleEnv (Container_GetKnownStatus (sampleContainer 3 0 True))
        (GetSteadyStateStatus (sampleContainer 3 0 True))
   \<and> IsInternal (sampleContainer 3 0 True)
   \<and> NewContainerStateChangeEvent sampleEnv (sampleTask 3 0) (sampleContainer 3 0 True) '''' =
        Inl (InternalContainer ''c1'')"
proof -
  have a: "ShouldReportToBackend sampleEnv (Container_GetKnownStatus (sampleContainer 3 0 True))
        (GetSteadyStateStatus (sampleContainer 3 0 True))"
    by (simp add: sampleEnv_def sampleContainer_def)
  have b: "IsInternal (sampleContainer 3 0 True)"
    by (simp add: sampleContainer_def)
  from InternalContainer_when_reportable [OF a b, of "sampleTask 3 0" "''''"] a b
  show ?thesis by (simp add: sampleContainer_def)
qed

text \<open>
  Claim C4 as it is written asks for \<open>InternalContainer\<close> whatever the known status is. An
  internal container in status NONE with steady state RUNNING fails with
  \<open>UnrecognizedStatus\<close>.
\<close>

theorem InternalContainer_counterexample:
  "IsInternal (sampleContainer 0 0 True)
   \<and> NewContainerStateChangeEvent sampleEnv (sampleTask 3 0) (sampleContainer 0 0 True) '''' =
        Inl (UnrecognizedStatus 0 ''t1'')
   \<and> NewContainerStateChangeEvent sampleEnv (sampleTask 3 0) (sampleContainer 0 0 True) ''''
        \<noteq> Inl (InternalContainer ''c1'')"
  by (simp add: NewContainerStateChangeEvent_def sampleEnv_def sampleTask_def sampleContainer_def)

text \<open>
  Claim C9. \<open>NewContainerStateChangeEvent\<close> tests its three failure conditions in a fixed
  order: whether the status is reportable, then the internal flag, then whether the status
  was already sent. A container whose known status is not reportable fails with
  \<open>UnrecognizedStatus\<close>, internal or not; a container with a reportable status that is
  internal fails with \<open>InternalContainer\<close>, whatever was sent; a container that passes both
  tests and whose sent status is at or above the known status fails with \<open>AlreadySent\<close>;
  every other container gives an event.
\<close>

theorem checks_in_fixed_order:
  "(\<not> ShouldReportToBackend env (Container_GetKnownStatus cont) (GetSteadyStateStatus cont)
      \<longrightarrow> NewContainerStateChangeEvent env task cont reason =
            Inl (UnrecognizedStatus (Container_GetKnownStatus cont) (Arn task)))
   \<and> (ShouldReportToBackend env (Container_GetKnownStatus cont) (GetSteadyStateStatus cont)
        \<and> IsInternal cont
      \<longrightarrow> NewContainerStateChangeEvent env task cont reason =
            Inl (InternalContainer (Name cont)))
   \<and> (ShouldReportToBackend env (Container_GetKnownStatus cont) (GetSteadyStateStatus cont)
        \<and> \<not> IsInternal cont
        \<and> Container_GetSentStatus cont \<ge> Container_GetKnownStatus cont
      \<longrightarrow> NewContainerStateChangeEvent env task cont reason =
            Inl (AlreadySent (ContainerStatus_String env (Container_GetKnownStatus cont))
                   [Name cont, Arn task]))
   \<and> (ShouldReportToBackend env (Container_GetKnownStatus cont) (GetSteadyStateStatus cont)
        \<and> \<not> IsInternal cont
        \<and> Container_GetSentStatus cont < Container_GetKnownStatus cont
      \<longrightarrow> (\<exists>event. NewContainerStateChangeEvent env task cont reason = Inr event))"
  by (simp add: NewContainerStateChangeEvent_def Let_def)

text \<open>
  An internal container in status CREATED, an internal container in status RUNNING with
  STOPPED already sent, a stopped container with STOPPED sent and one with RUNNING sent.
\<close>

theorem checks_in_fixed_order_witness:
  "IsInternal (sampleContainer 2 5 True)
   \<and> \<not> ShouldReportToBackend sampleEnv (Container_GetKnownStatus (sampleContainer 2 5 True))
         (GetSteadyStateStatus (sampleContainer 2 5 True))
   \<and> NewContainerStateChangeEvent sampleEnv (sampleTask 3 0) (sampleContainer 2 5 True) '''' =
       Inl (UnrecognizedStatus 2 ''t1'')
   \<and> IsInternal (sampleContainer 3 5 True)
   \<and> ShouldReportToBackend sampleEnv (Container_GetKnownStatus (sampleContainer 3 5 True))
         (GetSteadyStateStatus (sampleContainer 3 5 True))
   \<and> Container_GetSentStatus (sampleContainer 3 5 True)
         \<ge> Container_GetKnownStatus (sampleContainer 3 5 True)
   \<and> NewContainerStateChangeEvent sampleEnv (sampleTask 3 0) (sampleContainer 3 5 True) '''' =
       Inl (InternalContainer ''c1'')
   \<and> NewContainerStateChangeEvent sampleEnv (sampleTask 3 0) (sampleContainer 5 5 False) '''' =
       Inl (AlreadySent ''STOPPED'' [''c1'', ''t1''])
   \<and> (\<exists>event. NewContainerStateChangeEvent sampleEnv (sampleTask 3 0)
                 (sampleContainer 5 3 False) '''' = Inr event)"
  using checks_in_fixed_order [of sampleEnv "sampleContainer 2 5 True" "sampleTask 3 0" "''''"]
        checks_in_fixed_order [of sampleEnv "sampleContainer 3 5 True" "sampleTask 3 0" "''''"]
        checks_in_fixed_order [of sampleEnv "sampleContainer 5 5 False" "sampleTask 3 0" "''''"]
        checks_in_fixed_order [of sampleEnv "sampleContainer 5 3 False" "sampleTask 3 0" "''''"]
  by (simp add: sampleEnv_def sampleTask_def sampleContainer_def
        sampleContainerStatusString_def)

text \<open>
  Claim C5. When \<open>NewContainerStateChangeEvent\<close> returns an event: if the reason passed is
  empty and the container has a recorded error, the reason of the event is the message of
  that error; otherwise it is the reason that was passed.
\<close>

theorem Reason_defaults_to_ApplyingError:
  assumes "NewContainerStateChangeEvent env task cont reason = Inr event"
  shows "(reason = '''' \<and> ApplyingError cont = Some msg
            \<longrightarrow> ContainerStateChange.Reason event = msg)
       \<and> (reason \<noteq> '''' \<or> ApplyingError cont = None
            \<longrightarrow> ContainerStateChange.Reason event = reason)"
  using assms
  by (auto simp: NewContainerStateChangeEvent_def Let_def split: if_splits option.splits)

theorem Reason_defaults_to_ApplyingError_witness:
  "NewContainerStateChangeEvent sampleEnv (sampleTask 3 0) (sampleContainer 3 0 False) '''' =
     Inr \<lparr>TaskArn = ''t1'', ContainerName = ''c1'', ContainerStateChange.Status = 3,
          ContainerStateChange.Reason = ''CannotPullContainerError: timeout'',
          ExitCode = Some 1, PortBindings = [],
          Container = Some (sampleContainer 3 0 False)\<rparr>
   \<and> ApplyingError (sampleContainer 3 0 False) = Some ''CannotPullContainerError: timeout''
   \<and> NewContainerStateChangeEvent sampleEnv (sampleTask 3 0) (sampleContainer 3 0 False)
        ''stopped by user'' =
     Inr \<lparr>TaskArn = ''t1'', ContainerName = ''c1'', ContainerStateChange.Status = 3,
          ContainerStateChange.Reason = ''stopped by user'',
          ExitCode = Some 1, PortBindings = [],
          Container = Some (sampleContainer 3 0 False)\<rparr>"
proof -
  let ?cont = "sampleContainer 3 0 False"
  let ?ev = "\<lambda>r. \<lparr>TaskArn = ''t1'', ContainerName = ''c1'', ContainerStateChange.Status = 3,
          ContainerStateChange.Reason = r,
          ExitCode = Some 1, PortBindings = [], Container = Some ?cont\<rparr>"
  have a: "NewContainerStateChangeEvent sampleEnv (sampleTask 3 0) ?cont '''' =
             Inr (?ev ''CannotPullContainerError: timeout'')"
    by (simp add: NewContainerStateChangeEvent_def sampleEnv_def sampleTask_def
          sampleContainer_def)
  have b: "NewContainerStateChangeEvent sampleEnv (sampleTask 3 0) ?cont ''stopped by user'' =
             Inr (?ev ''stopped by user'')"
    by (simp add: NewContainerStateChangeEvent_def sampleEnv_def sampleTask_def
          sampleContainer_def)
  have c: "ApplyingError ?cont = Some ''CannotPullContainerError: timeout''"
    by (simp add: sampleContainer_def)
  from Reason_defaults_to_ApplyingError [OF a, of "''CannotPullContainerError: timeout''"]
       Reason_defaults_to_ApplyingError [OF b, of "''CannotPullContainerError: timeout''"] a b c
  show ?thesis by simp
qed

subsection \<open>ShouldBeReported\<close>

text \<open>
  Claim C6. For every task event, \<open>ShouldBeReported\<close> is true if and only if the status
  is \<open>TaskRunning\<close>, or the status is \<open>TaskStopped\<close>, or the list of container events is
  not empty; for any other status with no container event it is false.
\<close>

theorem ShouldBeReported_iff:
  "ShouldBeReported env change \<longleftrightarrow>
     Status change = TaskRunning env \<or> Status change = TaskStopped env
     \<or> Containers change \<noteq> []"
  by (simp add: ShouldBeReported_def)

theorem ShouldBeReported_iff_witness:
  "ShouldBeReported sampleEnv (sampleChange 3 [])
   \<and> ShouldBeReported sampleEnv (sampleChange 4 [])
   \<and> ShouldBeReported sampleEnv (sampleChange 2 [sampleContainerChange])
   \<and> \<not> ShouldBeReported sampleEnv (sampleChange 2 [])"
  using ShouldBeReported_iff [of sampleEnv "sampleChange 3 []"]
        ShouldBeReported_iff [of sampleEnv "sampleChange 4 []"]
        ShouldBeReported_iff [of sampleEnv "sampleChange 2 [sampleContainerChange]"]
        ShouldBeReported_iff [of sampleEnv "sampleChange 2 []"]
  by (simp add: sampleEnv_def sampleChange_def)

subsection \<open>Rendering\<close>

text \<open>
  Appending in a loop is appending the concatenation, and each rendering is its header
  followed by its segments, in the order of the list.
\<close>

lemma foldl_append_concat:
  "foldl (\<lambda>res x. res @ f x) acc xs = acc @ concat (map f xs)"
  by (induction xs arbitrary: acc) simp_all

lemma ContainerStateChange_String_segments:
  "ContainerStateChange_String env c =
     ContainerStateChange_header env c @ concat (map snd (ContainerStateChange_segments env c))"
  by (simp add: ContainerStateChange_String_def ContainerStateChange_header_def
        ContainerStateChange_segments_def Let_def split: option.splits)

lemma TaskStateChange_String_segments:
  "TaskStateChange_String env t =
     TaskStateChange_header env t @ concat (map snd (TaskStateChange_segments env t))"
  by (simp add: TaskStateChange_String_def TaskStateChange_header_def
        TaskStateChange_segments_def Let_def foldl_append_concat comp_def
        split: option.splits)

lemma Itoa_137: "Itoa 137 = ''137''"
  by (simp add: Itoa_def digit_def)

lemma stoppedContainerChange_String:
  "ContainerStateChange_String sampleEnv stoppedContainerChange =
     ''t1 c1 -> STOPPED, Exit 137, , Reason OutOfMemoryError, Known Sent: RUNNING''"
  by (simp add: ContainerStateChange_String_def stoppedContainerChange_def sampleEnv_def
        sampleContainer_def sampleContainerStatusString_def Itoa_137)

text \<open>
  Claim C8, as the code has it. The rendering of a container event is
  \<open>TaskArn ContainerName -> Status\<close> followed, in this order, by the exit code when
  \<open>ExitCode\<close> is not nil, the reason when \<open>Reason\<close> is not empty, the port bindings when
  there is one, and the sent status of the container when the back reference is not nil;
  each of them is appended exactly under that condition. The rendering of a task event is
  \<open>TaskARN -> Status\<close> followed, in this order, by the sent status and the three timestamps
  of the task, both appended exactly when the \<open>Task\<close> back reference is not nil and read
  from the task, whether or not a timestamp is set; by the attachment when it is not nil;
  and by one rendering for each container event, in the order of the list. The reason of a
  task event is not rendered.
\<close>

theorem String_segments_in_order:
  "ContainerStateChange_String env c =
     ContainerStateChange_header env c @ concat (map snd (ContainerStateChange_segments env c))
   \<and> map fst (ContainerStateChange_segments env c) =
       (if ExitCode c = None then [] else [ExitCodeSeg]) @
       (if ContainerStateChange.Reason c = '''' then [] else [ReasonSeg]) @
       (if PortBindings c = [] then [] else [PortBindingsSeg]) @
       (if Container c = None then [] else [KnownSentSeg])
   \<and> TaskStateChange_String env t =
       TaskStateChange_header env t @ concat (map snd (TaskStateChange_segments env t))
   \<and> map fst (TaskStateChange_segments env t) =
       (if Task t = None then [] else [KnownSentSeg, TimestampsSeg]) @
       (if Attachment t = None then [] else [AttachmentSeg]) @
       replicate (length (Containers t)) ContainerSeg"
proof -
  have "map fst (ContainerStateChange_segments env c) =
       (if ExitCode c = None then [] else [ExitCodeSeg]) @
       (if ContainerStateChange.Reason c = '''' then [] else [ReasonSeg]) @
       (if PortBindings c = [] then [] else [PortBindingsSeg]) @
       (if Container c = None then [] else [KnownSentSeg])"
    by (simp add: ContainerStateChange_segments_def split: option.splits)
  moreover have "map fst (TaskStateChange_segments env t) =
       (if Task t = None then [] else [KnownSentSeg, TimestampsSeg]) @
       (if Attachment t = None then [] else [AttachmentSeg]) @
       replicate (length (Containers t)) ContainerSeg"
    by (simp add: TaskStateChange_segments_def comp_def map_replicate_const
          split: option.splits)
  ultimately show ?thesis
    using ContainerStateChange_String_segments TaskStateChange_String_segments by simp
qed

text \<open>
  A container that was killed for lack of memory, and the event of its task that carries
  the container event.
\<close>

theorem String_segments_in_order_witness:
  "ContainerStateChange_String sampleEnv stoppedContainerChange =
     ''t1 c1 -> STOPPED, Exit 137, , Reason OutOfMemoryError, Known Sent: RUNNING''
   \<and> map fst (ContainerStateChange_segments sampleEnv stoppedContainerChange) =
       [ExitCodeSeg, ReasonSeg, KnownSentSeg]
   \<and> TaskStateChange_String sampleEnv stoppedTaskChange =
       ''t1 -> STOPPED, t1 c1 -> STOPPED, Exit 137, , Reason OutOfMemoryError, Known Sent: RUNNING''
   \<and> map fst (TaskStateChange_segments sampleEnv stoppedTaskChange) = [ContainerSeg]"
proof -
  have a: "ContainerStateChange_header sampleEnv stoppedContainerChange = ''t1 c1 -> STOPPED''"
    by (simp add: ContainerStateChange_header_def stoppedContainerChange_def sampleEnv_def
          sampleContainerStatusString_def)
  have b: "ContainerStateChange_segments sampleEnv stoppedContainerChange =
             [(ExitCodeSeg, '', Exit 137, ''), (ReasonSeg, '', Reason OutOfMemoryError''),
              (KnownSentSeg, '', Known Sent: RUNNING'')]"
    by (simp add: ContainerStateChange_segments_def stoppedContainerChange_def sampleEnv_def
          sampleContainer_def sampleContainerStatusString_def Itoa_137)
  have c: "TaskStateChange_header sampleEnv stoppedTaskChange = ''t1 -> STOPPED''"
    by (simp add: TaskStateChange_header_def stoppedTaskChange_def sampleEnv_def
          sampleTaskStatusString_def)
  have d: "TaskStateChange_segments sampleEnv stoppedTaskChange =
             [(ContainerSeg,
               '', t1 c1 -> STOPPED, Exit 137, , Reason OutOfMemoryError, Known Sent: RUNNING'')]"
    by (simp add: TaskStateChange_segments_def stoppedTaskChange_def
          stoppedContainerChange_String)
  from String_segments_in_order [of sampleEnv stoppedContainerChange stoppedTaskChange]
  show ?thesis by (simp add: a b c d)
qed

text \<open>
  Claim C8 as it is written has a segment appended if and only if its value is present or
  not empty. The event that \<open>NewTaskStateChangeEvent\<close> builds for a running task without
  any timestamp has its three timestamps nil and a reason; its rendering shows the three
  zero times of the task and no reason.
\<close>

theorem String_segments_counterexample:
  "NewTaskStateChangeEvent sampleEnv (sampleTask 3 0) ''all containers started'' = Inr freshEvent
   \<and> PullStartedAt freshEvent = None
   \<and> PullStoppedAt freshEvent = None
   \<and> ExecutionStoppedAt freshEvent = None
   \<and> Reason freshEvent \<noteq> ''''
   \<and> map fst (TaskStateChange_segments sampleEnv freshEvent) = [KnownSentSeg, TimestampsSeg]
   \<and> TaskStateChange_String sampleEnv freshEvent =
       ''t1 -> RUNNING, Known Sent: NONE, PullStartedAt: 0001-01-01 00:00:00 +0000 UTC, PullStoppedAt: 0001-01-01 00:00:00 +0000 UTC, ExecutionStoppedAt: 0001-01-01 00:00:00 +0000 UTC''"
proof -
  have "NewTaskStateChangeEvent sampleEnv (sampleTask 3 0) ''all containers started'' =
          Inr freshEvent"
    by (simp add: NewTaskStateChangeEvent_def SetTaskTimestamps_def freshEvent_def
          sampleEnv_def sampleTask_def IsZero_def zeroTime_def)
  moreover have "map fst (TaskStateChange_segments sampleEnv freshEvent) =
          [KnownSentSeg, TimestampsSeg]"
    by (simp add: TaskStateChange_segments_def freshEvent_def)
  moreover have "TaskStateChange_String sampleEnv freshEvent =
       ''t1 -> RUNNING, Known Sent: NONE, PullStartedAt: 0001-01-01 00:00:00 +0000 UTC, PullStoppedAt: 0001-01-01 00:00:00 +0000 UTC, ExecutionStoppedAt: 0001-01-01 00:00:00 +0000 UTC''"
    by (simp add: TaskStateChange_String_def freshEvent_def sampleEnv_def sampleTask_def
          sampleTaskStatusString_def sampleTimeString_def IsZero_def zeroTime_def)
  moreover have "PullStartedAt freshEvent = None \<and> PullStoppedAt freshEvent = None
       \<and> ExecutionStoppedAt freshEvent = None \<and> Reason freshEvent \<noteq> ''''"
    by (simp add: freshEvent_def)
  ultimately show ?thesis by simp
qed

end
